theory Spec2Isabelle
  imports Complex_Main
begin

section \<open>JavaScript values\<close>

text \<open>
  The form component is dynamically typed: the entries of the value-set, the trigger value
  of a conditional rule, the values and labels of options and the \<open>max\<close> of a rating are
  arbitrary JavaScript values. They are modelled by a tagged datatype. Numbers are the
  finite rationals (every finite double is one; \<open>+0\<close> and \<open>-0\<close>, which no operation used by
  the component tells apart, are both \<open>Fin 0\<close>), the two infinities and \<open>NaN\<close>. A file
  handle or any other object is a reference \<open>JObj r\<close>, compared by identity.
\<close>

datatype jsnum = NaN | NegInf | Fin rat | PosInf

datatype jsval =
    JUndefined
  | JNull
  | JBool bool
  | JNum jsnum
  | JStr string
  | JObj nat

text \<open>\<open>a === b\<close>: operands of different types are never equal, \<open>NaN\<close> is not equal to
  itself, objects are equal when they are the same reference.\<close>

fun strict_eq :: "jsval \<Rightarrow> jsval \<Rightarrow> bool" where
  "strict_eq (JNum a) (JNum b) = (a \<noteq> NaN \<and> a = b)"
| "strict_eq a b = (a = b)"

text \<open>\<open>ToBoolean\<close>, as used by \<open>!x\<close>, \<open>x || y\<close> and \<open>x && y\<close>.\<close>

fun truthy :: "jsval \<Rightarrow> bool" where
  "truthy JUndefined = False"
| "truthy JNull = False"
| "truthy (JBool b) = b"
| "truthy (JNum n) = (n \<noteq> NaN \<and> n \<noteq> Fin 0)"
| "truthy (JStr s) = (s \<noteq> [])"
| "truthy (JObj r) = True"

text \<open>\<open>a || b\<close>\<close>

definition js_or :: "jsval \<Rightarrow> jsval \<Rightarrow> jsval" where
  "js_or a b = (if truthy a then a else b)"

text \<open>
  \<open>ToNumber\<close> gives \<open>NaN\<close> for \<open>undefined\<close>, 0 for \<open>null\<close>, \<open>false\<close> and the empty string, and 1
  for \<open>true\<close>. On a non-empty string it parses a numeric literal, and on an object it calls
  the object's own conversion methods. Neither is code of the component, so both are
  parameters of the model; every theorem below holds for all of them.
\<close>

record runtime =
  string_to_number :: "string \<Rightarrow> jsnum"
  object_to_number :: "nat \<Rightarrow> jsnum"

fun to_number :: "runtime \<Rightarrow> jsval \<Rightarrow> jsnum" where
  "to_number rt JUndefined = NaN"
| "to_number rt JNull = Fin 0"
| "to_number rt (JBool b) = (if b then Fin 1 else Fin 0)"
| "to_number rt (JNum n) = n"
| "to_number rt (JStr s) = (if s = [] then Fin 0 else string_to_number rt s)"
| "to_number rt (JObj r) = object_to_number rt r"

text \<open>\<open>a <= b\<close> on numbers: false as soon as one side is \<open>NaN\<close>.\<close>

fun num_le :: "jsnum \<Rightarrow> jsnum \<Rightarrow> bool" where
  "num_le NaN b = False"
| "num_le a NaN = False"
| "num_le NegInf b = True"
| "num_le a PosInf = True"
| "num_le (Fin x) (Fin y) = (x \<le> y)"
| "num_le (Fin x) NegInf = False"
| "num_le PosInf b = False"

text \<open>\<open>n <= v\<close> with a number on the left: the right operand is converted by \<open>ToNumber\<close>.\<close>

definition js_le :: "runtime \<Rightarrow> jsnum \<Rightarrow> jsval \<Rightarrow> bool" where
  "js_le rt n v = num_le n (to_number rt v)"

text \<open>\<open>v >= n\<close> with a number on the right.\<close>

definition js_ge :: "runtime \<Rightarrow> jsval \<Rightarrow> jsnum \<Rightarrow> bool" where
  "js_ge rt v n = num_le n (to_number rt v)"

datatype error = TypeError | RangeError

text \<open>
  The length of \<open>Array(x)\<close>: a number must be an integer between 0 and \<open>2^32 - 1\<close>, or the
  constructor throws a \<open>RangeError\<close>; any other value becomes the only element of an array
  of length one.
\<close>

fun array_length :: "jsval \<Rightarrow> error + nat" where
  "array_length (JNum (Fin q)) =
     (if of_int \<lfloor>q\<rfloor> = q \<and> 0 \<le> q \<and> q < 2 ^ 32 then Inr (nat \<lfloor>q\<rfloor>) else Inl RangeError)"
| "array_length (JNum n) = Inl RangeError"
| "array_length v = Inr 1"

section \<open>The data model\<close>

text \<open>
  A field descriptor, as documented in the README: \<open>name\<close> and \<open>type\<close> are strings, the
  other slots hold whatever the caller wrote (\<open>JUndefined\<close> when the key is missing).
  \<open>options\<close> is \<open>None\<close> when the key is missing. \<open>conditional\<close> is \<open>None\<close> when the key is
  missing or falsy and otherwise the object \<open>{field, value}\<close>, whose slots are called
  \<open>cond_field\<close> and \<open>cond_value\<close> here; the slots of an option \<open>{value, label}\<close> are
  \<open>opt_value\<close> and \<open>opt_label\<close>, and \<open>max\<close> is \<open>max_stars\<close>.
\<close>

record conditional_rule =
  cond_field :: string
  cond_value :: jsval

record form_option =
  opt_value :: jsval
  opt_label :: jsval

record field =
  name :: string
  type :: string
  label :: jsval
  placeholder :: jsval
  options :: "form_option list option"
  conditional :: "conditional_rule option"
  max_stars :: jsval

text \<open>
  The value-set: what reading a key of the object returned by \<open>watch()\<close> yields,
  \<open>JUndefined\<close> for a field that is unset. Field names are flat keys. The error-set gives
  the message of the error entry under a name, \<open>None\<close> when there is no entry.
\<close>

type_synonym value_set = "string \<Rightarrow> jsval"
type_synonym error_set = "string \<rightharpoonup> jsval"

text \<open>The class-name props of the component, each defaulting to the empty string.\<close>

record styles =
  className :: string
  inputClassName :: string
  labelClassName :: string
  selectClassName :: string
  textareaClassName :: string
  checkboxClassName :: string
  checkboxInputClassName :: string
  radioWrapperClassName :: string
  fileInputClassName :: string
  ratingClassName :: string
  submitButtonClassName :: string

section \<open>The rendered output\<close>

text \<open>
  A React element is a tag, its props in source order and its children. \<open>Register n\<close>
  stands for the props spread from \<open>register(n)\<close>, \<open>Handler p\<close> for an event handler under
  the prop \<open>p\<close>, \<open>Style\<close> for an inline style object. \<open>Blank\<close> is a child that React does
  not render: \<open>false\<close>, \<open>null\<close> or \<open>undefined\<close>.
\<close>

datatype attr =
    Attr string jsval
  | Register string
  | Style "(string \<times> string) list"
  | Handler string

datatype node =
    Element string "attr list" "node list"
  | Text jsval
  | Blank

text \<open>All elements with a given tag, in document order.\<close>

fun elements_by_tag :: "string \<Rightarrow> node \<Rightarrow> node list" where
  "elements_by_tag t (Element tag attrs kids) =
     (if tag = t then [Element tag attrs kids] else []) @ concat (map (elements_by_tag t) kids)"
| "elements_by_tag t (Text v) = []"
| "elements_by_tag t Blank = []"

definition filled_star :: string where
  "filled_star = [CHR 0xE2, CHR 0x98, CHR 0x85]"

definition empty_star :: string where
  "empty_star = [CHR 0xE2, CHR 0x98, CHR 0x86]"

section \<open>The visibility evaluator\<close>

definition shouldRender :: "value_set \<Rightarrow> field \<Rightarrow> bool" where
  "shouldRender watchedValues f =
     (case conditional f of
        None \<Rightarrow> True
      | Some c \<Rightarrow> strict_eq (watchedValues (cond_field c)) (cond_value c))"

section \<open>The control dispatcher\<close>

definition label_block :: "styles \<Rightarrow> field \<Rightarrow> node" where
  "label_block cfg f =
     (if type f \<noteq> ''checkbox'' \<and> type f \<noteq> ''rating'' then
        Element ''label''
          [Attr ''htmlFor'' (JStr (name f)),
           Attr ''className''
             (JStr (''mb-1 block text-sm font-medium text-gray-900 '' @ labelClassName cfg))]
          [Text (label f)]
      else Blank)"

definition input_block :: "styles \<Rightarrow> field \<Rightarrow> node" where
  "input_block cfg f =
     (if type f \<in> set [''text'', ''email'', ''password'', ''date''] then
        Element ''input''
          [Attr ''id'' (JStr (name f)),
           Attr ''type'' (JStr (type f)),
           Register (name f),
           Attr ''className''
             (JStr (''block w-full rounded-md bg-white px-3 py-1.5 text-base text-gray-900 outline outline-1 -outline-offset-1 outline-gray-300 placeholder:text-gray-400  sm:text-sm/6 ''
                    @ inputClassName cfg)),
           Attr ''placeholder'' (placeholder f)]
          []
      else Blank)"

definition textarea_block :: "styles \<Rightarrow> field \<Rightarrow> node" where
  "textarea_block cfg f =
     (if type f = ''textarea'' then
        Element ''textarea''
          [Attr ''id'' (JStr (name f)),
           Register (name f),
           Attr ''className''
             (JStr (''block w-full rounded-md bg-white px-3 py-1.5 text-base text-gray-900 outline outline-1 -outline-offset-1 outline-gray-300 placeholder:text-gray-400 focus:outline focus:outline-2 focus:-outline-offset-2 focus:outline-indigo-600 sm:text-sm/6 ''
                    @ textareaClassName cfg)),
           Attr ''placeholder'' (placeholder f)]
          []
      else Blank)"

definition option_entry :: "form_option \<Rightarrow> node" where
  "option_entry opt =
     Element ''option''
       [Attr ''key'' (opt_value opt), Attr ''value'' (opt_value opt)]
       [Text (opt_label opt)]"

text \<open>\<open>field.options.map\<close> throws a \<open>TypeError\<close> when \<open>options\<close> is missing.\<close>

definition select_block :: "styles \<Rightarrow> field \<Rightarrow> error + node" where
  "select_block cfg f =
     (if type f = ''select'' then
        (case options f of
           None \<Rightarrow> Inl TypeError
         | Some opts \<Rightarrow>
             Inr (Element ''select''
               [Attr ''id'' (JStr (name f)),
                Register (name f),
                Attr ''className''
                  (JStr (''w-full rounded-md bg-white py-1.5 pl-3 pr-8 text-base text-gray-900 outline outline-1 -outline-offset-1 outline-gray-300 focus:outline focus:outline-2 focus:-outline-offset-2 focus:outline-indigo-600 sm:text-sm/6 ''
                         @ selectClassName cfg))]
               (map option_entry opts)))
      else Inr Blank)"

definition radio_input :: "field \<Rightarrow> form_option \<Rightarrow> node" where
  "radio_input f opt =
     Element ''input''
       [Attr ''type'' (JStr ''radio''),
        Attr ''value'' (opt_value opt),
        Register (name f),
        Style [(''marginRight'', ''5px'')]]
       []"

definition radio_entry :: "field \<Rightarrow> form_option \<Rightarrow> node" where
  "radio_entry f opt =
     Element ''label''
       [Attr ''key'' (opt_value opt),
        Attr ''className'' (JStr ''block text-sm font-medium text-gray-900'')]
       [radio_input f opt, Text (opt_label opt)]"

definition radio_block :: "styles \<Rightarrow> field \<Rightarrow> error + node" where
  "radio_block cfg f =
     (if type f = ''radio'' then
        (case options f of
           None \<Rightarrow> Inl TypeError
         | Some opts \<Rightarrow>
             Inr (Element ''div''
               [Attr ''className'' (JStr (''flex flex-col gap-1 mt-1 '' @ radioWrapperClassName cfg))]
               (map (radio_entry f) opts)))
      else Inr Blank)"

definition checkbox_block :: "styles \<Rightarrow> field \<Rightarrow> node" where
  "checkbox_block cfg f =
     (if type f = ''checkbox'' then
        Element ''label''
          [Attr ''className''
             (JStr (''flex items-center gap-2 text-sm font-medium text-gray-900 '' @ checkboxClassName cfg))]
          [Element ''input''
             [Attr ''id'' (JStr (name f)),
              Attr ''type'' (JStr ''checkbox''),
              Register (name f),
              Attr ''className'' (JStr (checkboxInputClassName cfg))]
             [],
           Text (label f)]
      else Blank)"

definition file_block :: "styles \<Rightarrow> field \<Rightarrow> node" where
  "file_block cfg f =
     (if type f = ''file'' then
        Element ''input''
          [Attr ''id'' (JStr (name f)),
           Attr ''type'' (JStr ''file''),
           Register (name f),
           Attr ''className'' (JStr (''mt-1 w-full text-sm text-gray-700 '' @ fileInputClassName cfg))]
          []
      else Blank)"

text \<open>The glyph of the star with the 1-based number \<open>v\<close>:
  \<open>value <= (watch(field.name) || 0) ? filled : empty\<close>.\<close>

definition star_glyph :: "runtime \<Rightarrow> value_set \<Rightarrow> field \<Rightarrow> nat \<Rightarrow> string" where
  "star_glyph rt watch f v =
     (if js_le rt (Fin (of_nat v)) (js_or (watch (name f)) (JNum (Fin 0)))
      then filled_star else empty_star)"

definition star_input :: "field \<Rightarrow> nat \<Rightarrow> node" where
  "star_input f v =
     Element ''input''
       [Attr ''type'' (JStr ''radio''),
        Attr ''value'' (JNum (Fin (of_nat v))),
        Register (name f),
        Attr ''className'' (JStr ''hidden'')]
       []"

definition star_span :: "runtime \<Rightarrow> value_set \<Rightarrow> field \<Rightarrow> nat \<Rightarrow> node" where
  "star_span rt watch f v =
     Element ''span''
       [Attr ''className'' (JStr ''text-2xl text-yellow-400'')]
       [Text (JStr (star_glyph rt watch f v))]"

text \<open>The body of the \<open>map\<close> callback over \<open>[...Array(n)]\<close>, at index \<open>i\<close>.\<close>

definition star :: "runtime \<Rightarrow> value_set \<Rightarrow> field \<Rightarrow> nat \<Rightarrow> node" where
  "star rt watch f i =
     (let v = i + 1 in
      Element ''label''
        [Attr ''key'' (JNum (Fin (of_nat v))), Attr ''className'' (JStr ''cursor-pointer'')]
        [star_input f v, star_span rt watch f v])"

definition rating_block :: "runtime \<Rightarrow> styles \<Rightarrow> value_set \<Rightarrow> field \<Rightarrow> error + node" where
  "rating_block rt cfg watch f =
     (if type f = ''rating'' then
        (case array_length (js_or (max_stars f) (JNum (Fin 5))) of
           Inl e \<Rightarrow> Inl e
         | Inr n \<Rightarrow>
             Inr (Element ''div''
               [Attr ''className'' (JStr ''flex flex-col gap-1 '')]
               [Element ''label''
                  [Attr ''className''
                     (JStr (''mb-1 block text-sm font-medium text-gray-900 '' @ labelClassName cfg))]
                  [Text (label f)],
                Element ''div''
                  [Attr ''className'' (JStr (''flex gap-1 '' @ ratingClassName cfg))]
                  (map (star rt watch f) [0..<n])]))
      else Inr Blank)"

definition error_block :: "error_set \<Rightarrow> field \<Rightarrow> node" where
  "error_block errors f =
     (case errors (name f) of
        None \<Rightarrow> Blank
      | Some message \<Rightarrow>
          Element ''div'' [Attr ''className'' (JStr ''mt-1 text-sm text-red-500'')] [Text message])"

text \<open>The callback of \<open>fields.map\<close>: \<open>null\<close> for a hidden field, otherwise the \<open>div\<close> of
  the field with its nine slots. An exception thrown in a slot leaves the callback.\<close>

definition render_field ::
  "runtime \<Rightarrow> styles \<Rightarrow> value_set \<Rightarrow> error_set \<Rightarrow> field \<Rightarrow> error + node" where
  "render_field rt cfg watchedValues errors f =
     (if \<not> shouldRender watchedValues f then Inr Blank
      else
        (case select_block cfg f of Inl e \<Rightarrow> Inl e | Inr sel \<Rightarrow>
        (case radio_block cfg f of Inl e \<Rightarrow> Inl e | Inr rad \<Rightarrow>
        (case rating_block rt cfg watchedValues f of Inl e \<Rightarrow> Inl e | Inr rating \<Rightarrow>
          Inr (Element ''div''
            [Attr ''key'' (JStr (name f)), Attr ''className'' (JStr ''mb-4 text-start'')]
            [label_block cfg f,
             input_block cfg f,
             textarea_block cfg f,
             sel,
             rad,
             checkbox_block cfg f,
             file_block cfg f,
             rating,
             error_block errors f])))))"

section \<open>The form orchestrator\<close>




section \<open>Submitting\<close>

text \<open>
  The caller's \<open>onSubmit\<close> is a function called for its effect; it is modelled as a
  transformer of the caller's world \<open>'w\<close>. \<open>enhancedSubmit\<close> hands the data it receives to
  \<open>onSubmit\<close>.
\<close>

definition enhancedSubmit :: "(value_set \<Rightarrow> 'w \<Rightarrow> 'w) \<Rightarrow> value_set \<Rightarrow> 'w \<Rightarrow> 'w" where
  "enhancedSubmit onSubmit data w = onSubmit data w"

text \<open>A callback that only records the argument of each call, to count invocations.\<close>

definition record_call :: "value_set \<Rightarrow> value_set list \<Rightarrow> value_set list" where
  "record_call data calls = calls @ [data]"

text \<open>Modelled from the spec: the state kept by the form-state library, which is external
  to the repository: the value-set and the error-set.\<close>

record form_state =
  form_values :: value_set
  form_errors :: error_set

text \<open>Modelled from the spec: the verdict of the external validation engine on a
  value-set: valid, or the error entry of each failing field.\<close>

datatype validation = Valid | Invalid error_set

text \<open>Modelled from the spec: \<open>handleSubmit\<close> of the form-state library together with the
  schema resolver, which are external to the repository. On a submit the validation
  engine runs against the complete current value-set; if it is valid the handler is
  invoked once with the full value-set; if it is invalid the handler is not invoked and
  the error-set is updated instead.\<close>

definition handleSubmit ::
  "(value_set \<Rightarrow> validation) \<Rightarrow> (value_set \<Rightarrow> 'w \<Rightarrow> 'w) \<Rightarrow> form_state \<times> 'w \<Rightarrow> form_state \<times> 'w" where
  "handleSubmit resolver handler sw =
     (case sw of (st, w) \<Rightarrow>
        (case resolver (form_values st) of
           Valid \<Rightarrow> (st\<lparr>form_errors := Map.empty\<rparr>, handler (form_values st) w)
         | Invalid errs \<Rightarrow> (st\<lparr>form_errors := errs\<rparr>, w)))"

text \<open>The handler on the form's \<open>onSubmit\<close> prop: \<open>handleSubmit(enhancedSubmit)\<close>.\<close>

definition form_onSubmit ::
  "(value_set \<Rightarrow> validation) \<Rightarrow> (value_set \<Rightarrow> 'w \<Rightarrow> 'w) \<Rightarrow> form_state \<times> 'w \<Rightarrow> form_state \<times> 'w" where
  "form_onSubmit resolver onSubmit = handleSubmit resolver (enhancedSubmit onSubmit)"

text \<open>The ten field types the dispatcher has a control for.\<close>

definition recognized_kinds :: "string list" where
  "recognized_kinds =
     [''text'', ''email'', ''password'', ''date'', ''textarea'', ''select'', ''radio'',
      ''checkbox'', ''file'', ''rating'']"

section \<open>Example inputs\<close>

text \<open>The fields of the README's complete example that the theorems are run on, with the
  default class names, and a runtime whose string and object conversions yield \<open>NaN\<close>.\<close>

definition plain_runtime :: runtime where
  "plain_runtime = \<lparr>string_to_number = (\<lambda>s. NaN), object_to_number = (\<lambda>r. NaN)\<rparr>"

definition default_styles :: styles where
  "default_styles = \<lparr>className = [], inputClassName = [], labelClassName = [],
     selectClassName = [], textareaClassName = [], checkboxClassName = [],
     checkboxInputClassName = [], radioWrapperClassName = [], fileInputClassName = [],
     ratingClassName = [], submitButtonClassName = []\<rparr>"

definition country_field :: field where
  "country_field = \<lparr>name = ''country'', type = ''select'', label = JStr ''Country'',
     placeholder = JUndefined,
     options = Some [\<lparr>opt_value = JStr ''us'', opt_label = JStr ''US''\<rparr>,
                     \<lparr>opt_value = JStr ''other'', opt_label = JStr ''Other''\<rparr>],
     conditional = None, max_stars = JUndefined\<rparr>"

definition customCountry_field :: field where
  "customCountry_field = \<lparr>name = ''customCountry'', type = ''text'',
     label = JStr ''Specify Country'', placeholder = JUndefined, options = None,
     conditional = Some \<lparr>cond_field = ''country'', cond_value = JStr ''other''\<rparr>,
     max_stars = JUndefined\<rparr>"

definition untriggered_field :: field where
  "untriggered_field = \<lparr>name = ''customCountry'', type = ''text'',
     label = JStr ''Specify Country'', placeholder = JUndefined, options = None,
     conditional = Some \<lparr>cond_field = ''country'', cond_value = JUndefined\<rparr>,
     max_stars = JUndefined\<rparr>"

definition contactMethod_field :: field where
  "contactMethod_field = \<lparr>name = ''contactMethod'', type = ''radio'',
     label = JStr ''Preferred Contact Method'', placeholder = JUndefined,
     options = Some [\<lparr>opt_value = JStr ''email'', opt_label = JStr ''Email''\<rparr>,
                     \<lparr>opt_value = JStr ''phone'', opt_label = JStr ''Phone''\<rparr>],
     conditional = None, max_stars = JUndefined\<rparr>"

definition rating_field :: field where
  "rating_field = \<lparr>name = ''satisfaction'', type = ''rating'',
     label = JStr ''Rate your satisfaction'', placeholder = JUndefined, options = None,
     conditional = None, max_stars = JNum (Fin 3)\<rparr>"

definition colour_field :: field where
  "colour_field = \<lparr>name = ''shade'', type = ''color'', label = JStr ''Shade'',
     placeholder = JUndefined, options = None, conditional = None, max_stars = JUndefined\<rparr>"


definition email_errors :: error_set where
  "email_errors = [''email'' \<mapsto> JStr ''Please enter a valid email'']"

definition email_resolver :: "value_set \<Rightarrow> validation" where
  "email_resolver data =
     (if data ''email'' = JStr ''a@b.c'' then Valid else Invalid email_errors)"


definition good_email_state :: form_state where
  "good_email_state =
     \<lparr>form_values = (\<lambda>k. JUndefined)(''email'' := JStr ''a@b.c'', ''country'' := JStr ''us'',
        ''customCountry'' := JStr ''Atlantis''),
      form_errors = Map.empty\<rparr>"




section \<open>Auxiliary facts\<close>

lemma strict_eq_imp_eq: "strict_eq a b \<Longrightarrow> a = b"
  by (cases "(a, b)" rule: strict_eq.cases) auto

lemma concat_map_singleton: "concat (map (\<lambda>x. [g x]) xs) = map g xs"
  by (induction xs) simp_all

lemma elements_by_tag_option_entry:
  "elements_by_tag t (option_entry opt) = (if t = ''option'' then [option_entry opt] else [])"
  by (auto simp add: option_entry_def)

lemma elements_by_tag_radio_entry_input:
  "elements_by_tag ''input'' (radio_entry f opt) = [radio_input f opt]"
  by (simp add: radio_entry_def radio_input_def)

lemma elements_by_tag_radio_entry_label:
  "elements_by_tag ''label'' (radio_entry f opt) = [radio_entry f opt]"
  by (simp add: radio_entry_def radio_input_def)

lemma elements_by_tag_star_input:
  "elements_by_tag ''input'' (star rt w f i) = [star_input f (Suc i)]"
  by (simp add: star_def star_input_def star_span_def)

lemma elements_by_tag_star_span:
  "elements_by_tag ''span'' (star rt w f i) = [star_span rt w f (Suc i)]"
  by (simp add: star_def star_input_def star_span_def)

lemma error_block_no_tag:
  "t \<noteq> ''div'' \<Longrightarrow> elements_by_tag t (error_block es f) = []"
  by (simp add: error_block_def split: option.splits)

text \<open>For a star number of at least one, substituting 0 for a falsy current value does
  not change the comparison.\<close>

lemma or_zero_ge:
  assumes "0 < i"
  shows "js_le rt (Fin (of_nat i)) (js_or v (JNum (Fin 0))) = js_ge rt v (Fin (of_nat i))"
proof (cases "truthy v")
  case True
  then show ?thesis by (simp add: js_or_def js_le_def js_ge_def)
next
  case False
  with assms show ?thesis
    by (cases v) (auto simp add: js_or_def js_le_def js_ge_def split: if_splits)
qed

lemma array_length_of_nat:
  assumes "M < 2 ^ 32"
  shows "array_length (JNum (Fin (of_nat M))) = Inr M"
proof -
  have "(of_nat M :: rat) < of_nat (2 ^ 32)" using assms by (simp only: of_nat_less_iff)
  then have "(of_nat M :: rat) < 2 ^ 32" by simp
  then show ?thesis by simp
qed

lemma map_star_upt: "map g [1..<Suc M] = map (\<lambda>i. g (Suc i)) [0..<M]"
proof -
  have "[1..<Suc M] = map Suc [0..<M]" by (simp add: map_Suc_upt)
  then show ?thesis by (simp add: comp_def)
qed

lemma rating_block_stars:
  assumes "type f = ''rating''" and "array_length (js_or (max_stars f) (JNum (Fin 5))) = Inr n"
  shows "rating_block rt cfg w f =
     Inr (Element ''div''
               [Attr ''className'' (JStr ''flex flex-col gap-1 '')]
               [Element ''label''
                  [Attr ''className''
                     (JStr (''mb-1 block text-sm font-medium text-gray-900 '' @ labelClassName cfg))]
                  [Text (label f)],
                Element ''div''
                  [Attr ''className'' (JStr (''flex gap-1 '' @ ratingClassName cfg))]
                  (map (star rt w f) [0..<n])])"
  using assms by (simp add: rating_block_def)

lemma render_rating:
  assumes "type f = ''rating''" and "shouldRender w f"
    and "array_length (js_or (max_stars f) (JNum (Fin 5))) = Inr n"
  shows "\<exists>out. render_field rt cfg w es f = Inr out
     \<and> elements_by_tag ''input'' out = map (\<lambda>i. star_input f (Suc i)) [0..<n]
     \<and> elements_by_tag ''span'' out = map (\<lambda>i. star_span rt w f (Suc i)) [0..<n]"
proof -
  have blocks: "label_block cfg f = Blank" "input_block cfg f = Blank"
    "textarea_block cfg f = Blank" "select_block cfg f = Inr Blank"
    "radio_block cfg f = Inr Blank" "checkbox_block cfg f = Blank" "file_block cfg f = Blank"
    using assms(1)
    by (simp_all add: label_block_def input_block_def textarea_block_def select_block_def
        radio_block_def checkbox_block_def file_block_def)
  have err: "elements_by_tag ''input'' (error_block es f) = []"
    "elements_by_tag ''span'' (error_block es f) = []"
    by (simp_all add: error_block_no_tag)
  show ?thesis
    using assms(2) err
    by (simp add: render_field_def blocks rating_block_stars [OF assms(1) assms(3)]
        map_concat comp_def elements_by_tag_star_input elements_by_tag_star_span)
qed


lemma upt_1_4: "[Suc 0..<4] = [Suc 0, 2, 3]"
  by (simp add: upt_rec)

section \<open>The visibility evaluator: claims\<close>

text \<open>
  C1. For every field descriptor with a conditional rule (the spec's \<open>dependsOnField\<close> and
  \<open>equals\<close> are the keys \<open>field\<close> and \<open>value\<close> of the source, here \<open>D\<close> and \<open>V\<close>) and every
  value-set, \<open>shouldRender\<close> returns true if and only if the value-set's entry for \<open>D\<close> is
  strictly equal to \<open>V\<close>. There is no coercion: when it returns true the entry and \<open>V\<close> are
  the same value of the same type, and the number 1 does not match the string \<open>"1"\<close>.
\<close>

theorem shouldRender_strict_equality:
  assumes "conditional f = Some \<lparr>cond_field = D, cond_value = V\<rparr>"
  shows "(shouldRender watchedValues f \<longleftrightarrow> strict_eq (watchedValues D) V)
       \<and> (shouldRender watchedValues f \<longrightarrow> watchedValues D = V)
       \<and> (watchedValues D = JNum (Fin 1) \<and> V = JStr ''1'' \<longrightarrow> \<not> shouldRender watchedValues f)"
  using assms by (auto simp add: shouldRender_def strict_eq_imp_eq)

theorem shouldRender_strict_equality_witness:
  "conditional customCountry_field
     = Some \<lparr>cond_field = ''country'', cond_value = JStr ''other''\<rparr>
   \<and> shouldRender ((\<lambda>k. JUndefined)(''country'' := JStr ''other'')) customCountry_field
   \<and> \<not> shouldRender ((\<lambda>k. JUndefined)(''country'' := JStr ''us'')) customCountry_field"
  using shouldRender_strict_equality [of customCountry_field "''country''" "JStr ''other''"
      "(\<lambda>k. JUndefined)(''country'' := JStr ''other'')"]
    shouldRender_strict_equality [of customCountry_field "''country''" "JStr ''other''"
      "(\<lambda>k. JUndefined)(''country'' := JStr ''us'')"]
  by (simp add: customCountry_field_def)

text \<open>
  C4. For every field descriptor with no conditional rule and every value-set,
  \<open>shouldRender\<close> returns true.
\<close>

theorem shouldRender_unconditional:
  "conditional f = None \<Longrightarrow> shouldRender watchedValues f"
  by (simp add: shouldRender_def)

theorem shouldRender_unconditional_witness:
  "conditional country_field = None
   \<and> shouldRender ((\<lambda>k. JUndefined)(''country'' := JStr ''us'')) country_field"
  using shouldRender_unconditional [of country_field
      "(\<lambda>k. JUndefined)(''country'' := JStr ''us'')"]
  by (simp add: country_field_def)

text \<open>
  C5. For every field descriptor with a conditional rule, if the value-set's entry for the
  dependency field is undefined, then \<open>shouldRender\<close> returns false for every declared
  trigger value, that is, every trigger value other than \<open>undefined\<close>.
\<close>

theorem shouldRender_unset_dependency_hidden:
  assumes "conditional f = Some c"
    and "watchedValues (cond_field c) = JUndefined"
    and "cond_value c \<noteq> JUndefined"
  shows "\<not> shouldRender watchedValues f"
  using assms by (auto simp add: shouldRender_def dest: strict_eq_imp_eq)

theorem shouldRender_unset_dependency_hidden_witness:
  "conditional customCountry_field
     = Some \<lparr>cond_field = ''country'', cond_value = JStr ''other''\<rparr>
   \<and> (\<lambda>k. JUndefined) (cond_field \<lparr>cond_field = ''country'', cond_value = JStr ''other''\<rparr>)
       = JUndefined
   \<and> cond_value \<lparr>cond_field = ''country'', cond_value = JStr ''other''\<rparr> \<noteq> JUndefined
   \<and> \<not> shouldRender (\<lambda>k. JUndefined) customCountry_field"
  using shouldRender_unset_dependency_hidden [of customCountry_field
      "\<lparr>cond_field = ''country'', cond_value = JStr ''other''\<rparr>" "\<lambda>k. JUndefined"]
  by (simp add: customCountry_field_def)

text \<open>
  C10. A field descriptor whose conditional rule has an undefined trigger value (the
  \<open>value\<close> key is absent) is shown when the value-set's entry for the dependency field is
  undefined: \<open>undefined === undefined\<close> holds. The witness exhibits such a descriptor.
\<close>

theorem shouldRender_undefined_trigger_shown:
  assumes "conditional f = Some c"
    and "cond_value c = JUndefined"
    and "watchedValues (cond_field c) = JUndefined"
  shows "shouldRender watchedValues f"
  using assms by (simp add: shouldRender_def)

theorem shouldRender_undefined_trigger_shown_witness:
  "conditional untriggered_field = Some \<lparr>cond_field = ''country'', cond_value = JUndefined\<rparr>
   \<and> cond_value \<lparr>cond_field = ''country'', cond_value = JUndefined\<rparr> = JUndefined
   \<and> (\<lambda>k. JUndefined) (cond_field \<lparr>cond_field = ''country'', cond_value = JUndefined\<rparr>)
       = JUndefined
   \<and> shouldRender (\<lambda>k. JUndefined) untriggered_field"
  using shouldRender_undefined_trigger_shown [of untriggered_field
      "\<lparr>cond_field = ''country'', cond_value = JUndefined\<rparr>" "\<lambda>k. JUndefined"]
  by (simp add: untriggered_field_def)

section \<open>The control dispatcher: claims\<close>

text \<open>
  C6. Rendering a visible rating field with \<open>max = M\<close>, for a positive integer \<open>M\<close> that is a
  valid array length, or with \<open>max\<close> unset and \<open>M = 5\<close>, produces exactly \<open>M\<close> star controls:
  the radio inputs with the values \<open>1\<close> to \<open>M\<close>, in this order. The glyph of star \<open>i\<close> is the
  filled star if and only if the field's current value is greater than or equal to \<open>i\<close>
  (JavaScript's \<open>>=\<close>), and the empty star otherwise.
\<close>

theorem rating_stars:
  assumes "type f = ''rating''" and "shouldRender watchedValues f"
    and "(max_stars f = JUndefined \<and> M = 5)
       \<or> (max_stars f = JNum (Fin (of_nat M)) \<and> 0 < M \<and> M < 2 ^ 32)"
  shows "\<exists>out. render_field rt cfg watchedValues errors f = Inr out
     \<and> elements_by_tag ''input'' out =
         map (\<lambda>i. Element ''input''
                [Attr ''type'' (JStr ''radio''), Attr ''value'' (JNum (Fin (of_nat i))),
                 Register (name f), Attr ''className'' (JStr ''hidden'')] [])
           [1..<Suc M]
     \<and> elements_by_tag ''span'' out =
         map (\<lambda>i. Element ''span'' [Attr ''className'' (JStr ''text-2xl text-yellow-400'')]
                [Text (JStr (if js_ge rt (watchedValues (name f)) (Fin (of_nat i))
                             then filled_star else empty_star))])
           [1..<Suc M]"
proof -
  have len: "array_length (js_or (max_stars f) (JNum (Fin 5))) = Inr M"
  proof -
    from assms(3) show ?thesis
    proof
      assume "max_stars f = JUndefined \<and> M = 5"
      then show ?thesis by (simp add: js_or_def)
    next
      assume h: "max_stars f = JNum (Fin (of_nat M)) \<and> 0 < M \<and> M < 2 ^ 32"
      then have "js_or (max_stars f) (JNum (Fin 5)) = JNum (Fin (of_nat M))"
        by (simp add: js_or_def)
      with h show ?thesis by (simp only: array_length_of_nat)
    qed
  qed
  have glyph: "star_span rt watchedValues f (Suc i) =
      Element ''span'' [Attr ''className'' (JStr ''text-2xl text-yellow-400'')]
                [Text (JStr (if js_ge rt (watchedValues (name f)) (Fin (of_nat (Suc i)))
                             then filled_star else empty_star))]" for i
    unfolding star_span_def star_glyph_def by (simp only: or_zero_ge [OF zero_less_Suc])
  from render_rating [OF assms(1) assms(2) len, of rt cfg errors]
  show ?thesis
    by (simp only: map_star_upt [where M = M] glyph star_input_def)
qed

text \<open>The spec's scenario: \<open>max = 3\<close> and current value 2 give filled, filled, empty.\<close>

theorem rating_stars_witness:
  "type rating_field = ''rating''
   \<and> shouldRender ((\<lambda>k. JUndefined)(''satisfaction'' := JNum (Fin 2))) rating_field
   \<and> max_stars rating_field = JNum (Fin (of_nat 3)) \<and> (0::nat) < 3 \<and> (3::nat) < 2 ^ 32
   \<and> (\<exists>out. render_field plain_runtime default_styles
          ((\<lambda>k. JUndefined)(''satisfaction'' := JNum (Fin 2))) Map.empty rating_field = Inr out
        \<and> length (elements_by_tag ''input'' out) = 3
        \<and> elements_by_tag ''span'' out =
            [Element ''span'' [Attr ''className'' (JStr ''text-2xl text-yellow-400'')]
               [Text (JStr filled_star)],
             Element ''span'' [Attr ''className'' (JStr ''text-2xl text-yellow-400'')]
               [Text (JStr filled_star)],
             Element ''span'' [Attr ''className'' (JStr ''text-2xl text-yellow-400'')]
               [Text (JStr empty_star)]])"
proof -
  have vis: "shouldRender ((\<lambda>k. JUndefined)(''satisfaction'' := JNum (Fin 2))) rating_field"
    by (simp add: shouldRender_def rating_field_def)
  have ty: "type rating_field = ''rating''" by (simp add: rating_field_def)
  have mx: "(max_stars rating_field = JUndefined \<and> (3::nat) = 5)
       \<or> (max_stars rating_field = JNum (Fin (of_nat 3)) \<and> (0::nat) < 3 \<and> (3::nat) < 2 ^ 32)"
    by (simp add: rating_field_def)
  from rating_stars [OF ty vis mx, of plain_runtime default_styles Map.empty]
  show ?thesis
    using vis by (auto simp add: upt_1_4 js_ge_def rating_field_def)
qed

text \<open>
  C7. Rendering a visible select or radio field whose options list has \<open>N\<close> entries
  produces exactly \<open>N\<close> selectable entries, in the order of the options list: for a select
  the \<open>option\<close> elements, for a radio group the radio inputs and, after the field's own
  label, the labels that wrap them. Entry \<open>k\<close> carries the declared value and the declared
  label of option \<open>k\<close>.
\<close>

theorem select_radio_entries:
  assumes "shouldRender watchedValues f" and "options f = Some opts"
  shows "(type f = ''select'' \<longrightarrow>
           (\<exists>out. render_field rt cfg watchedValues errors f = Inr out
              \<and> elements_by_tag ''option'' out =
                  map (\<lambda>opt. Element ''option''
                         [Attr ''key'' (opt_value opt), Attr ''value'' (opt_value opt)]
                         [Text (opt_label opt)]) opts))
       \<and> (type f = ''radio'' \<longrightarrow>
           (\<exists>out. render_field rt cfg watchedValues errors f = Inr out
              \<and> elements_by_tag ''input'' out =
                  map (\<lambda>opt. Element ''input''
                         [Attr ''type'' (JStr ''radio''), Attr ''value'' (opt_value opt),
                          Register (name f), Style [(''marginRight'', ''5px'')]] []) opts
              \<and> elements_by_tag ''label'' out =
                  label_block cfg f #
                  map (\<lambda>opt. Element ''label''
                         [Attr ''key'' (opt_value opt),
                          Attr ''className'' (JStr ''block text-sm font-medium text-gray-900'')]
                         [Element ''input''
                            [Attr ''type'' (JStr ''radio''), Attr ''value'' (opt_value opt),
                             Register (name f), Style [(''marginRight'', ''5px'')]] [],
                          Text (opt_label opt)]) opts))"
proof (intro conjI impI)
  assume t: "type f = ''select''"
  have blocks: "input_block cfg f = Blank" "textarea_block cfg f = Blank"
    "radio_block cfg f = Inr Blank" "checkbox_block cfg f = Blank" "file_block cfg f = Blank"
    "rating_block rt cfg watchedValues f = Inr Blank"
    using t
    by (simp_all add: input_block_def textarea_block_def rating_block_def
        radio_block_def checkbox_block_def file_block_def)
  have lab: "elements_by_tag ''option'' (label_block cfg f) = []"
    by (simp add: label_block_def)
  have sel: "select_block cfg f = Inr (Element ''select''
               [Attr ''id'' (JStr (name f)),
                Register (name f),
                Attr ''className''
                  (JStr (''w-full rounded-md bg-white py-1.5 pl-3 pr-8 text-base text-gray-900 outline outline-1 -outline-offset-1 outline-gray-300 focus:outline focus:outline-2 focus:-outline-offset-2 focus:outline-indigo-600 sm:text-sm/6 ''
                         @ selectClassName cfg))]
               (map option_entry opts))"
    using t assms(2) by (simp add: select_block_def)
  have err: "elements_by_tag ''option'' (error_block errors f) = []"
    by (simp add: error_block_no_tag)
  have "concat (map (elements_by_tag ''option'') (map option_entry opts)) = map option_entry opts"
    by (simp add: map_concat comp_def elements_by_tag_option_entry concat_map_singleton)
  then show "\<exists>out. render_field rt cfg watchedValues errors f = Inr out
              \<and> elements_by_tag ''option'' out =
                  map (\<lambda>opt. Element ''option''
                         [Attr ''key'' (opt_value opt), Attr ''value'' (opt_value opt)]
                         [Text (opt_label opt)]) opts"
    using assms(1) err lab by (simp add: render_field_def blocks sel option_entry_def)
next
  assume t: "type f = ''radio''"
  have blocks: "input_block cfg f = Blank" "textarea_block cfg f = Blank"
    "select_block cfg f = Inr Blank" "checkbox_block cfg f = Blank" "file_block cfg f = Blank"
    "rating_block rt cfg watchedValues f = Inr Blank"
    using t
    by (simp_all add: input_block_def textarea_block_def rating_block_def
        select_block_def checkbox_block_def file_block_def)
  have rad: "radio_block cfg f = Inr (Element ''div''
               [Attr ''className'' (JStr (''flex flex-col gap-1 mt-1 '' @ radioWrapperClassName cfg))]
               (map (radio_entry f) opts))"
    using t assms(2) by (simp add: radio_block_def)
  have err: "elements_by_tag ''input'' (error_block errors f) = []"
    "elements_by_tag ''label'' (error_block errors f) = []"
    by (simp_all add: error_block_no_tag)
  have ins: "concat (map (elements_by_tag ''input'') (map (radio_entry f) opts))
      = map (radio_input f) opts"
    by (simp add: map_concat comp_def elements_by_tag_radio_entry_input concat_map_singleton)
  have labs: "concat (map (elements_by_tag ''label'') (map (radio_entry f) opts))
      = map (radio_entry f) opts"
    by (simp add: map_concat comp_def elements_by_tag_radio_entry_label concat_map_singleton)
  have out: "render_field rt cfg watchedValues errors f =
     Inr (Element ''div''
            [Attr ''key'' (JStr (name f)), Attr ''className'' (JStr ''mb-4 text-start'')]
            [label_block cfg f, Blank, Blank, Blank,
             Element ''div''
               [Attr ''className'' (JStr (''flex flex-col gap-1 mt-1 '' @ radioWrapperClassName cfg))]
               (map (radio_entry f) opts), Blank, Blank, Blank, error_block errors f])"
    using assms(1) by (simp add: render_field_def blocks rad)
  have "elements_by_tag ''input'' (label_block cfg f) = []"
    "elements_by_tag ''label'' (label_block cfg f) = [label_block cfg f]"
    using t by (simp_all add: label_block_def)
  then show "\<exists>out. render_field rt cfg watchedValues errors f = Inr out
              \<and> elements_by_tag ''input'' out =
                  map (\<lambda>opt. Element ''input''
                         [Attr ''type'' (JStr ''radio''), Attr ''value'' (opt_value opt),
                          Register (name f), Style [(''marginRight'', ''5px'')]] []) opts
              \<and> elements_by_tag ''label'' out =
                  label_block cfg f #
                  map (\<lambda>opt. Element ''label''
                         [Attr ''key'' (opt_value opt),
                          Attr ''className'' (JStr ''block text-sm font-medium text-gray-900'')]
                         [Element ''input''
                            [Attr ''type'' (JStr ''radio''), Attr ''value'' (opt_value opt),
                             Register (name f), Style [(''marginRight'', ''5px'')]] [],
                          Text (opt_label opt)]) opts"
    using err ins labs by (simp add: out radio_entry_def radio_input_def)
qed

theorem select_radio_entries_witness:
  "shouldRender (\<lambda>k. JUndefined) country_field
   \<and> options country_field
       = Some [\<lparr>opt_value = JStr ''us'', opt_label = JStr ''US''\<rparr>,
               \<lparr>opt_value = JStr ''other'', opt_label = JStr ''Other''\<rparr>]
   \<and> type country_field = ''select''
   \<and> (\<exists>out. render_field plain_runtime default_styles (\<lambda>k. JUndefined) Map.empty country_field
          = Inr out
        \<and> elements_by_tag ''option'' out =
            [Element ''option'' [Attr ''key'' (JStr ''us''), Attr ''value'' (JStr ''us'')]
               [Text (JStr ''US'')],
             Element ''option'' [Attr ''key'' (JStr ''other''), Attr ''value'' (JStr ''other'')]
               [Text (JStr ''Other'')]])
   \<and> shouldRender (\<lambda>k. JUndefined) contactMethod_field
   \<and> options contactMethod_field
       = Some [\<lparr>opt_value = JStr ''email'', opt_label = JStr ''Email''\<rparr>,
               \<lparr>opt_value = JStr ''phone'', opt_label = JStr ''Phone''\<rparr>]
   \<and> type contactMethod_field = ''radio''
   \<and> (\<exists>out. render_field plain_runtime default_styles (\<lambda>k. JUndefined) Map.empty
          contactMethod_field = Inr out
        \<and> elements_by_tag ''input'' out =
            [Element ''input''
               [Attr ''type'' (JStr ''radio''), Attr ''value'' (JStr ''email''),
                Register ''contactMethod'', Style [(''marginRight'', ''5px'')]] [],
             Element ''input''
               [Attr ''type'' (JStr ''radio''), Attr ''value'' (JStr ''phone''),
                Register ''contactMethod'', Style [(''marginRight'', ''5px'')]] []])"
proof -
  have vis: "shouldRender (\<lambda>k. JUndefined) country_field"
    "shouldRender (\<lambda>k. JUndefined) contactMethod_field"
    by (simp_all add: shouldRender_def country_field_def contactMethod_field_def)
  have opts: "options country_field
       = Some [\<lparr>opt_value = JStr ''us'', opt_label = JStr ''US''\<rparr>,
               \<lparr>opt_value = JStr ''other'', opt_label = JStr ''Other''\<rparr>]"
    "options contactMethod_field
       = Some [\<lparr>opt_value = JStr ''email'', opt_label = JStr ''Email''\<rparr>,
               \<lparr>opt_value = JStr ''phone'', opt_label = JStr ''Phone''\<rparr>]"
    by (simp_all add: country_field_def contactMethod_field_def)
  have ty: "type country_field = ''select''" "type contactMethod_field = ''radio''"
    "name contactMethod_field = ''contactMethod''"
    by (simp_all add: country_field_def contactMethod_field_def)
  from select_radio_entries [OF vis(1) opts(1), of plain_runtime default_styles Map.empty]
    select_radio_entries [OF vis(2) opts(2), of plain_runtime default_styles Map.empty]
  show ?thesis
    using vis opts ty by auto
qed

text \<open>
  C8. For every visible field descriptor whose type is not one of the ten recognized
  kinds, rendering does not fail and produces no interactive control: the \<open>div\<close> of the
  field holds the label, seven empty slots and the error block, which is the message of
  the error-set's entry for the field when there is one and nothing otherwise.
\<close>

theorem unknown_kind_label_and_error_only:
  assumes "type f \<notin> set recognized_kinds" and "shouldRender watchedValues f"
  shows "\<exists>out. render_field rt cfg watchedValues errors f = Inr out
     \<and> out = Element ''div''
         [Attr ''key'' (JStr (name f)), Attr ''className'' (JStr ''mb-4 text-start'')]
         [Element ''label''
            [Attr ''htmlFor'' (JStr (name f)),
             Attr ''className''
               (JStr (''mb-1 block text-sm font-medium text-gray-900 '' @ labelClassName cfg))]
            [Text (label f)],
          Blank, Blank, Blank, Blank, Blank, Blank, Blank,
          (case errors (name f) of
             None \<Rightarrow> Blank
           | Some message \<Rightarrow>
               Element ''div'' [Attr ''className'' (JStr ''mt-1 text-sm text-red-500'')]
                 [Text message])]
     \<and> elements_by_tag ''input'' out = []
     \<and> elements_by_tag ''textarea'' out = []
     \<and> elements_by_tag ''select'' out = []"
  using assms
  by (simp add: recognized_kinds_def render_field_def label_block_def input_block_def
      textarea_block_def select_block_def radio_block_def checkbox_block_def file_block_def
      rating_block_def error_block_def split: option.splits)

theorem unknown_kind_label_and_error_only_witness:
  "type colour_field \<notin> set recognized_kinds
   \<and> shouldRender (\<lambda>k. JUndefined) colour_field
   \<and> render_field plain_runtime default_styles (\<lambda>k. JUndefined)
        [''shade'' \<mapsto> JStr ''Shade is required''] colour_field
      = Inr (Element ''div''
         [Attr ''key'' (JStr ''shade''), Attr ''className'' (JStr ''mb-4 text-start'')]
         [Element ''label''
            [Attr ''htmlFor'' (JStr ''shade''),
             Attr ''className'' (JStr ''mb-1 block text-sm font-medium text-gray-900 '')]
            [Text (JStr ''Shade'')],
          Blank, Blank, Blank, Blank, Blank, Blank, Blank,
          Element ''div'' [Attr ''className'' (JStr ''mt-1 text-sm text-red-500'')]
            [Text (JStr ''Shade is required'')]])"
proof -
  have ty: "type colour_field \<notin> set recognized_kinds"
    by (simp add: colour_field_def recognized_kinds_def)
  have vis: "shouldRender (\<lambda>k. JUndefined) colour_field"
    by (simp add: shouldRender_def colour_field_def)
  from unknown_kind_label_and_error_only [OF ty vis, of plain_runtime default_styles
      "[''shade'' \<mapsto> JStr ''Shade is required'']"]
  show ?thesis
    using ty vis by (auto simp add: colour_field_def default_styles_def)
qed

section \<open>The form orchestrator: claims\<close>

text \<open>
  C2. For every submission whose complete current value-set passes the validation schema,
  the submit handling invokes the caller's \<open>onSubmit\<close> exactly once with the full value-set:
  the caller's world after the submit is one application of \<open>onSubmit\<close> to the value-set,
  a callback that records its calls has recorded exactly one more, and the argument holds
  the value of every field, also of those that \<open>shouldRender\<close> hides.
\<close>

theorem submit_valid_calls_onSubmit_once:
  assumes "resolver (form_values st) = Valid"
  shows "snd (form_onSubmit resolver onSubmit (st, w)) = onSubmit (form_values st) w
       \<and> snd (form_onSubmit resolver record_call (st, calls)) = calls @ [form_values st]
       \<and> (\<forall>f. \<not> shouldRender (form_values st) f \<longrightarrow>
             last (snd (form_onSubmit resolver record_call (st, calls))) (name f)
               = form_values st (name f))"
  using assms
  by (simp add: form_onSubmit_def handleSubmit_def enhancedSubmit_def record_call_def)

theorem submit_valid_calls_onSubmit_once_witness:
  "email_resolver (form_values good_email_state) = Valid
   \<and> snd (form_onSubmit email_resolver record_call (good_email_state, []))
       = [form_values good_email_state]
   \<and> \<not> shouldRender (form_values good_email_state) customCountry_field
   \<and> last (snd (form_onSubmit email_resolver record_call (good_email_state, [])))
        (name customCountry_field) = JStr ''Atlantis''"
proof -
  have ok: "email_resolver (form_values good_email_state) = Valid"
    by (simp add: email_resolver_def good_email_state_def)
  have hid: "\<not> shouldRender (form_values good_email_state) customCountry_field"
    by (simp add: shouldRender_def good_email_state_def customCountry_field_def)
  have val: "form_values good_email_state (name customCountry_field) = JStr ''Atlantis''"
    by (simp add: good_email_state_def customCountry_field_def)
  from submit_valid_calls_onSubmit_once [where resolver = email_resolver
      and st = good_email_state and onSubmit = record_call and w = "[]" and calls = "[]", OF ok]
  show ?thesis
    using ok hid val by (simp add: record_call_def)
qed




end
